theory Spec2Isabelle
  imports Main "HOL-Library.Sublist" "HOL-Library.Word"
begin

section \<open>Values and error objects\<close>

text \<open>
  The mail service (\<^verbatim>\<open>GmailService\<close>) catches whatever its provider calls throw as
  \<^verbatim>\<open>error: any\<close> and reads three properties of it: \<^verbatim>\<open>code\<close>, \<^verbatim>\<open>status\<close> and
  \<^verbatim>\<open>message\<close>. A code or status is a string, a number or absent. The message is
  a string or absent; calling \<^verbatim>\<open>.includes\<close> or \<^verbatim>\<open>.toLowerCase\<close> on an absent
  message raises a \<^verbatim>\<open>TypeError\<close>. Message text is a list of code units below 256.
\<close>

datatype js_value = JUndefined | JString string | JNumber int

record js_error =
  code :: js_value
  status :: js_value
  message :: "string option"

datatype js_exn = TypeError

text \<open>\<^verbatim>\<open>new Error(msg)\<close>: a message and neither code nor status.\<close>

definition Error :: "string \<Rightarrow> js_error" where
  "Error msg = \<lparr>code = JUndefined, status = JUndefined, message = Some msg\<rparr>"

text \<open>
  A raised \<^verbatim>\<open>TypeError\<close>, seen as the error object an enclosing \<^verbatim>\<open>catch\<close>
  receives. The only one that reaches such a \<^verbatim>\<open>catch\<close> comes from the message
  test of \<^verbatim>\<open>isAuthenticationError\<close>.
\<close>

definition thrown :: "js_exn \<Rightarrow> js_error" where
  "thrown x = Error ''Cannot read properties of undefined (reading 'toLowerCase')''"

subsection \<open>String operations\<close>

fun startsWith :: "string \<Rightarrow> string \<Rightarrow> bool" where
  "startsWith s [] = True"
| "startsWith [] (p # ps) = False"
| "startsWith (c # cs) (p # ps) = (c = p \<and> startsWith cs ps)"

text \<open>\<^verbatim>\<open>s.includes(p)\<close>: the pattern occurs in \<open>s\<close> as a contiguous run.\<close>

fun includesStr :: "string \<Rightarrow> string \<Rightarrow> bool" where
  "includesStr [] p = (p = [])"
| "includesStr (c # cs) p = (startsWith (c # cs) p \<or> includesStr cs p)"

text \<open>
  \<^verbatim>\<open>toLowerCase\<close> on code units below 256: the letters A to Z and the accented
  capitals 192 to 222 (the multiplication sign 215 apart) move up by 32.
\<close>

definition lowerChar :: "char \<Rightarrow> char" where
  "lowerChar c =
     (let n = (of_char c :: nat)
      in if (65 \<le> n \<and> n \<le> 90) \<or> (192 \<le> n \<and> n \<le> 222 \<and> n \<noteq> 215)
         then char_of (n + 32) else c)"

definition toLowerCase :: "string \<Rightarrow> string" where
  "toLowerCase s = map lowerChar s"

section \<open>Error taxonomy\<close>

definition retryableCodes :: "js_value list" where
  "retryableCodes =
     [JString ''ECONNRESET'', JString ''ETIMEDOUT'', JString ''ENOTFOUND'',
      JString ''EAI_AGAIN'', JNumber 500, JNumber 502, JNumber 503, JNumber 429]"

text \<open>
  \<^verbatim>\<open>isRetryableError\<close>: the disjunction is evaluated left to right, so the message
  is read only when neither code nor status is in the list.
\<close>

definition isRetryableError :: "js_error \<Rightarrow> js_exn + bool" where
  "isRetryableError e =
     (if List.member retryableCodes (code e) then Inr True
      else if List.member retryableCodes (status e) then Inr True
      else case message e of
             None \<Rightarrow> Inl TypeError
           | Some m \<Rightarrow>
               Inr (includesStr m ''timeout'' \<or> includesStr m ''network'' \<or> includesStr m ''quota''))"

definition authErrors :: "js_value list" where
  "authErrors =
     [JString ''invalid_grant'', JString ''invalid_request'', JString ''unauthorized_client'',
      JString ''access_denied'', JString ''invalid_scope'', JNumber 401, JNumber 403]"

definition authMessages :: "string list" where
  "authMessages =
     [''Token has been expired or revoked'', ''invalid_grant'', ''unauthorized'',
      ''forbidden'', ''invalid refresh token'', ''refresh token expired'']"

definition isAuthenticationError :: "js_error \<Rightarrow> js_exn + bool" where
  "isAuthenticationError e =
     (if List.member authErrors (code e) then Inr True
      else if List.member authErrors (status e) then Inr True
      else case message e of
             None \<Rightarrow> Inl TypeError
           | Some m \<Rightarrow>
               Inr (list_ex (\<lambda>msg. includesStr (toLowerCase m) (toLowerCase msg)) authMessages))"

section \<open>Token guard and delivery engine\<close>

text \<open>
  What the service does to the outside world, in order: a liveness probe, a
  provider call for a numbered attempt, a backoff wait in milliseconds, the log line
  of \<^verbatim>\<open>handleAuthError\<close>, the operator notification \<^verbatim>\<open>notifyAuthError\<close>, and the
  re-authorization callback.
\<close>

datatype effect =
    LiveProbe
  | ProviderCall nat
  | BackoffWait nat
  | AuthErrorLogged
  | Escalation
  | ReAuthCallback

text \<open>
  The mutable fields of \<^verbatim>\<open>GmailService\<close>. \<open>reAuthCallback\<close> says whether a callback
  was given to the constructor; \<open>effects\<close> records the outside effects so far.
  Times are milliseconds since the epoch.
\<close>

record GmailService =
  isTokenValid :: bool
  lastTokenCheck :: int
  notificationSent :: bool
  reAuthCallback :: bool
  effects :: "effect list"

definition emit :: "effect list \<Rightarrow> GmailService \<Rightarrow> GmailService" where
  "emit es s = s\<lparr>effects := effects s @ es\<rparr>"

text \<open>
  \<^verbatim>\<open>handleAuthError\<close>: always logs; notifies and calls back only when no
  notification is pending. \<^verbatim>\<open>notifyAuthError\<close> contains its own failures.
\<close>

definition handleAuthError :: "GmailService \<Rightarrow> GmailService" where
  "handleAuthError s =
     (let s1 = emit [AuthErrorLogged] s
      in if \<not> notificationSent s1
         then emit (Escalation # (if reAuthCallback s1 then [ReAuthCallback] else []))
                (s1\<lparr>notificationSent := True\<rparr>)
         else s1)"

text \<open>
  One liveness probe as the provider answers it: \<^verbatim>\<open>getAccessToken()\<close> throws or
  yields a token (possibly none), \<^verbatim>\<open>getProfile\<close> throws or returns, and
  \<open>checkedAt\<close> is the clock read after both.
\<close>

record probe =
  accessToken :: "js_error + string option"
  profile :: "js_error + unit"
  checkedAt :: int

text \<open>The \<^verbatim>\<open>catch\<close> block of \<^verbatim>\<open>validateToken\<close>.\<close>

definition validateToken_catch :: "js_error \<Rightarrow> GmailService \<Rightarrow> (js_exn + bool) \<times> GmailService" where
  "validateToken_catch e s =
     (case isAuthenticationError e of
        Inl x \<Rightarrow> (Inl x, s)
      | Inr a \<Rightarrow>
          if a then (Inr False, handleAuthError (s\<lparr>isTokenValid := False\<rparr>))
          else (Inr False, s))"

text \<open>\<^verbatim>\<open>validateToken\<close>, with \<open>now\<close> the clock at entry.\<close>

definition validateToken :: "int \<Rightarrow> probe \<Rightarrow> GmailService \<Rightarrow> (js_exn + bool) \<times> GmailService" where
  "validateToken now pr s =
     (let fiveMinutesAgo = now - 5 * 60 * 1000
      in if isTokenValid s \<and> lastTokenCheck s > fiveMinutesAgo then (Inr True, s)
         else
           (let s1 = emit [LiveProbe] s
            in case accessToken pr of
                 Inl e \<Rightarrow> validateToken_catch e s1
               | Inr token \<Rightarrow>
                   if token = None \<or> token = Some []
                   then validateToken_catch (Error ''No access token received'') s1
                   else (case profile pr of
                           Inl e \<Rightarrow> validateToken_catch e s1
                         | Inr u \<Rightarrow>
                             (Inr True,
                              s1\<lparr>isTokenValid := True, lastTokenCheck := checkedAt pr\<rparr>))))"

text \<open>\<^verbatim>\<open>GmailEmailResponse\<close>; an absent optional field is \<open>None\<close> or \<open>JUndefined\<close>.\<close>

record GmailEmailResponse =
  success :: bool
  messageId :: "string option"
  threadId :: "string option"
  error :: "string option"
  errorCode :: js_value
  timestamp :: int
  requiresReAuth :: "bool option"

text \<open>
  The body of the \<^verbatim>\<open>try\<close> in one attempt of \<^verbatim>\<open>sendEmail\<close> (fresh access token,
  message body, provider call) either returns the provider's ids or throws.
\<close>

datatype attempt = Delivered "string option" "string option" | Threw js_error

text \<open>\<^verbatim>\<open>v || undefined\<close> on a string that may be absent: an empty string is dropped.\<close>

definition orUndefined :: "string option \<Rightarrow> string option" where
  "orUndefined v = (case v of None \<Rightarrow> None | Some [] \<Rightarrow> None | Some (c # cs) \<Rightarrow> Some (c # cs))"

text \<open>
  The retry loop of \<^verbatim>\<open>sendEmail\<close> from a given attempt on. \<open>provider n\<close> is
  what attempt \<open>n\<close> meets and \<open>ts\<close> the clock at return. Both classifiers run
  before either result is used, the retry classifier first.
\<close>

function sendEmail_loop ::
  "(nat \<Rightarrow> attempt) \<Rightarrow> int \<Rightarrow> nat \<Rightarrow> nat \<Rightarrow> GmailService
     \<Rightarrow> (js_exn + GmailEmailResponse) \<times> GmailService" where
  "sendEmail_loop provider ts maxRetries attempt s =
     (if attempt \<le> maxRetries then
        (let s1 = emit [ProviderCall attempt] s
         in case provider attempt of
              Delivered mid tid \<Rightarrow>
                (Inr \<lparr>success = True, messageId = orUndefined mid,
                      threadId = orUndefined tid, error = None,
                      errorCode = JUndefined, timestamp = ts, requiresReAuth = None\<rparr>,
                 s1\<lparr>notificationSent := False, isTokenValid := True\<rparr>)
            | Threw e \<Rightarrow>
                (let isLastAttempt = (attempt = maxRetries)
                 in case isRetryableError e of
                      Inl x \<Rightarrow> (Inl x, s1)
                    | Inr isRetryable \<Rightarrow>
                        (case isAuthenticationError e of
                           Inl x \<Rightarrow> (Inl x, s1)
                         | Inr isAuthError \<Rightarrow>
                             if isAuthError then
                               (Inr \<lparr>success = False, messageId = None, threadId = None,
                                     error = Some ''Authentication failed - re-authorization required'',
                                     errorCode = code e, timestamp = ts,
                                     requiresReAuth = Some True\<rparr>,
                                handleAuthError (s1\<lparr>isTokenValid := False\<rparr>))
                             else if isLastAttempt \<or> \<not> isRetryable then
                               (Inr \<lparr>success = False, messageId = None, threadId = None,
                                     error = message e, errorCode = code e, timestamp = ts,
                                     requiresReAuth = None\<rparr>,
                                s1)
                             else
                               sendEmail_loop provider ts maxRetries (attempt + 1)
                                 (emit [BackoffWait (2 ^ (attempt - 1) * 1000)] s1))))
      else
        (Inr \<lparr>success = False, messageId = None, threadId = None,
              error = Some ''Max retries exceeded'', errorCode = JUndefined, timestamp = ts,
              requiresReAuth = None\<rparr>,
         s))"
  by pat_completeness auto
termination
  by (relation "measure (\<lambda>(provider, ts, maxRetries, attempt, s). Suc maxRetries - attempt)") auto

declare sendEmail_loop.simps [simp del]

text \<open>
  \<^verbatim>\<open>sendEmail\<close>: the token check runs outside any \<^verbatim>\<open>try\<close>, so what it raises
  leaves \<^verbatim>\<open>sendEmail\<close> as well.
\<close>

definition sendEmail ::
  "int \<Rightarrow> probe \<Rightarrow> (nat \<Rightarrow> attempt) \<Rightarrow> int \<Rightarrow> nat \<Rightarrow> GmailService
     \<Rightarrow> (js_exn + GmailEmailResponse) \<times> GmailService" where
  "sendEmail now pr provider ts maxRetries s =
     (case validateToken now pr s of
        (Inl x, s1) \<Rightarrow> (Inl x, s1)
      | (Inr tokenValid, s1) \<Rightarrow>
          if \<not> tokenValid then
            (Inr \<lparr>success = False, messageId = None, threadId = None,
                  error = Some ''Gmail authentication failed - re-authorization required'',
                  errorCode = JString ''AUTH_REQUIRED'', timestamp = ts,
                  requiresReAuth = Some True\<rparr>,
             s1)
          else sendEmail_loop provider ts maxRetries 1 s1)"

text \<open>
  \<^verbatim>\<open>refreshToken\<close>: \<open>refreshed\<close> is the outcome of \<^verbatim>\<open>refreshAccessToken()\<close>.
  The token check runs inside the \<^verbatim>\<open>try\<close>, so what it raises is caught here and
  classified like any other error.
\<close>

definition refreshToken_catch :: "js_error \<Rightarrow> GmailService \<Rightarrow> (js_exn + bool) \<times> GmailService" where
  "refreshToken_catch e s =
     (case isAuthenticationError e of
        Inl x \<Rightarrow> (Inl x, s)
      | Inr a \<Rightarrow> (Inr False, if a then handleAuthError s else s))"

definition refreshToken ::
  "(js_error + unit) \<Rightarrow> int \<Rightarrow> probe \<Rightarrow> GmailService \<Rightarrow> (js_exn + bool) \<times> GmailService" where
  "refreshToken refreshed now pr s =
     (case refreshed of
        Inl e \<Rightarrow> refreshToken_catch e s
      | Inr u \<Rightarrow>
          (case validateToken now pr s of
             (Inl x, s1) \<Rightarrow> refreshToken_catch (thrown x) s1
           | (Inr isValid, s1) \<Rightarrow>
               if isValid
               then (Inr True, s1\<lparr>isTokenValid := True, notificationSent := False\<rparr>)
               else (Inr False, s1)))"

record TokenStatus =
  valid :: bool
  lastCheck :: int
  needsReAuth :: bool

definition getTokenStatus :: "GmailService \<Rightarrow> TokenStatus" where
  "getTokenStatus s =
     \<lparr>valid = isTokenValid s, lastCheck = lastTokenCheck s, needsReAuth = \<not> isTokenValid s\<rparr>"

subsection \<open>Histories of calls\<close>




text \<open>
  \<^verbatim>\<open>handleAuthError\<close> logs one line whenever it runs, and the service runs it
  exactly where it has caught an error that \<^verbatim>\<open>isAuthenticationError\<close> accepts.
  A call is an auth-class failure when it adds such a line.
\<close>

definition authLogs :: "GmailService \<Rightarrow> nat" where
  "authLogs s = count_list (effects s) AuthErrorLogged"





definition escalations :: "GmailService \<Rightarrow> nat" where
  "escalations s = count_list (effects s) Escalation"


definition probes :: "GmailService \<Rightarrow> nat" where
  "probes s = count_list (effects s) LiveProbe"

definition isProviderCall :: "effect \<Rightarrow> bool" where
  "isProviderCall ev = (case ev of ProviderCall n \<Rightarrow> True | _ \<Rightarrow> False)"

definition attempts :: "GmailService \<Rightarrow> nat" where
  "attempts s = length (filter isProviderCall (effects s))"

text \<open>
  The error classes of the taxonomy. An error is auth-class when
  \<^verbatim>\<open>isAuthenticationError\<close> accepts it. The engine tests for an auth-class error
  first, so an error is transient when \<^verbatim>\<open>isRetryableError\<close> accepts it and
  \<^verbatim>\<open>isAuthenticationError\<close> does not.
\<close>

definition authClass :: "js_error \<Rightarrow> bool" where
  "authClass e = (isAuthenticationError e = Inr True)"

definition transientClass :: "js_error \<Rightarrow> bool" where
  "transientClass e = (isRetryableError e = Inr True \<and> isAuthenticationError e \<noteq> Inr True)"

text \<open>
  What the \<^verbatim>\<open>catch\<close> block of \<^verbatim>\<open>sendEmail\<close> arrives at. It runs the retry
  classifier, then the auth classifier, and only then tests the results, so it
  handles an error as auth-class, or as transient, only when both classifiers
  have returned.
\<close>

definition handledAsAuth :: "js_error \<Rightarrow> bool" where
  "handledAsAuth e =
     (case isRetryableError e of
        Inl x \<Rightarrow> False
      | Inr isRetryable \<Rightarrow> isAuthenticationError e = Inr True)"

definition handledAsTransient :: "js_error \<Rightarrow> bool" where
  "handledAsTransient e = (isRetryableError e = Inr True \<and> isAuthenticationError e = Inr False)"

text \<open>Attempts \<open>a\<close> to \<open>b - 1\<close>, each followed by its backoff wait.\<close>

definition retried :: "nat \<Rightarrow> nat \<Rightarrow> effect list" where
  "retried a b = concat (map (\<lambda>j. [ProviderCall j, BackoffWait (2 ^ (j - 1) * 1000)]) [a..<b])"

section \<open>Fallback queue\<close>

text \<open>
  Text that arrives in a JSON body is a string of 16-bit code units, since
  \<^verbatim>\<open>JSON.parse\<close> accepts escapes of unpaired surrogates.
\<close>

type_synonym code_units = "16 word list"

definition literal :: "string \<Rightarrow> code_units" where
  "literal s = map (\<lambda>c. of_nat (of_char c)) s"

datatype kind = Confirmation | Response

text \<open>
  An entry of \<^verbatim>\<open>failedEmails\<close>. Entries are objects compared by identity
  (\<^verbatim>\<open>email !== failedEmail\<close>), so each carries the reference it was allocated at.
\<close>

record FailedEmail =
  fe_ref :: nat
  fe_email :: code_units
  fe_name :: code_units
  fe_message :: code_units
  fe_timestamp :: int
  fe_type :: kind



datatype resend_outcome = Resolved GmailEmailResponse | Rejected js_error




text \<open>
  \<^verbatim>\<open>handleFailedEmail\<close>: appends a new object; \<open>next_ref\<close> is the first
  unused reference. Both notifications contain their own failures.
\<close>

record EmailFallbackService =
  failedEmails :: "FailedEmail list"
  next_ref :: nat
  failure_notices :: nat
  reauth_notices :: nat

definition handleFailedEmail ::
  "GmailEmailResponse \<Rightarrow> code_units \<Rightarrow> code_units \<Rightarrow> code_units \<Rightarrow> kind \<Rightarrow> int
     \<Rightarrow> EmailFallbackService \<Rightarrow> EmailFallbackService" where
  "handleFailedEmail emailResponse userEmail userName msg ty now q =
     (let q1 = q\<lparr>failedEmails := failedEmails q @
                   [\<lparr>fe_ref = next_ref q, fe_email = userEmail, fe_name = userName,
                     fe_message = msg, fe_timestamp = now, fe_type = ty\<rparr>],
                 next_ref := next_ref q + 1,
                 failure_notices := failure_notices q + 1\<rparr>
      in if requiresReAuth emailResponse = Some True
         then q1\<lparr>reauth_notices := reauth_notices q1 + 1\<rparr> else q1)"

section \<open>Re-authorization flow\<close>

text \<open>The credential record of \<^verbatim>\<open>tokens.json\<close>.\<close>

record TokenData =
  td_refreshToken :: string
  td_updatedAt :: int
  td_updatedBy :: "string option"

text \<open>
  \<^verbatim>\<open>saveRefreshToken\<close>: \<open>written\<close> is the outcome of \<^verbatim>\<open>fs.writeFile\<close>. A
  failed write is re-thrown; it comes with what the file holds afterwards, which
  need not be what it held before (a readable old record, or none when the file
  is left truncated).
\<close>

definition saveRefreshToken ::
  "string \<Rightarrow> string \<Rightarrow> int \<Rightarrow> (js_error \<times> TokenData option) option
     \<Rightarrow> TokenData option \<Rightarrow> (js_error + unit) \<times> TokenData option" where
  "saveRefreshToken token updatedBy now written file =
     (case written of
        None \<Rightarrow>
          (Inr (),
           Some \<lparr>td_refreshToken = token, td_updatedAt = now, td_updatedBy = Some updatedBy\<rparr>)
      | Some (e, left) \<Rightarrow> (Inl e, left))"

record Credentials =
  refresh_token :: "string option"
  access_token :: "string option"

record UserInfo =
  ui_email :: "string option"
  ui_verified :: "bool option"
  ui_name :: "string option"

text \<open>
  What the provider and the file system answer during one callback: the code
  exchange, the identity endpoint, the mailbox test (its result is only logged),
  the file write, the clock.
\<close>

record oauth_env =
  getToken :: "js_error + Credentials"
  userinfo_get :: "js_error + UserInfo"
  gmailAccess :: bool
  writeFile :: "(js_error \<times> TokenData option) option"
  clock :: int

datatype page =
    ErrorPage string
  | WrongAccountPage "string option" string
  | SuccessPage "string option"

definition truthy :: "'a list option \<Rightarrow> bool" where
  "truthy v = (case v of None \<Rightarrow> False | Some s \<Rightarrow> s \<noteq> [])"

definition shown :: "string option \<Rightarrow> string" where
  "shown v = (case v of None \<Rightarrow> ''undefined'' | Some s \<Rightarrow> s)"

definition requiredEmail :: string where
  "requiredEmail = ''supprtblockroyale@gmail.com''"

text \<open>\<^verbatim>\<open>OAuth2Setup.getTokens\<close> and \<^verbatim>\<open>validateTokens\<close>; both re-throw.\<close>

definition getTokens :: "oauth_env \<Rightarrow> js_error + Credentials" where
  "getTokens env =
     (case getToken env of
        Inl e \<Rightarrow> Inl e
      | Inr tokens \<Rightarrow>
          if \<not> truthy (refresh_token tokens)
          then Inl (Error ''No refresh token received. Make sure to revoke existing access and re-authorize.'')
          else Inr tokens)"

definition validateTokens :: "oauth_env \<Rightarrow> js_error + UserInfo" where
  "validateTokens env = userinfo_get env"

text \<open>The \<^verbatim>\<open>catch\<close> block of the callback route.\<close>

definition callback_catch :: "js_error \<Rightarrow> page" where
  "callback_catch e = ErrorPage (''Failed to complete authorization: '' @ shown (message e))"

text \<open>
  The route \<^verbatim>\<open>GET /callback\<close>: the page sent, the credential file afterwards, and
  the calls of \<^verbatim>\<open>saveRefreshToken\<close> made, each with its two arguments.
\<close>

definition callback ::
  "string option \<Rightarrow> string option \<Rightarrow> oauth_env \<Rightarrow> TokenData option
     \<Rightarrow> page \<times> TokenData option \<times> (string \<times> string) list" where
  "callback authorizationCode err env file =
     (if truthy err then (ErrorPage ''Authorization was cancelled or denied'', file, [])
      else if \<not> truthy authorizationCode
      then (ErrorPage ''No authorization code received'', file, [])
      else
        (case getTokens env of
           Inl e \<Rightarrow> (callback_catch e, file, [])
         | Inr tokens \<Rightarrow>
             (case validateTokens env of
                Inl e \<Rightarrow> (callback_catch e, file, [])
              | Inr userInfo \<Rightarrow>
                  if ui_email userInfo \<noteq> Some requiredEmail
                  then (WrongAccountPage (ui_email userInfo) requiredEmail, file, [])
                  else
                    (let token = the (refresh_token tokens);
                         updatedBy = ''OAuth2 callback - '' @ shown (ui_email userInfo);
                         saves = [(token, updatedBy)]
                     in case saveRefreshToken token updatedBy (clock env) (writeFile env) file of
                          (Inl e, file1) \<Rightarrow> (callback_catch e, file1, saves)
                        | (Inr u, file1) \<Rightarrow> (SuccessPage (ui_email userInfo), file1, saves)))))"

section \<open>Support webhook\<close>

text \<open>
  Header values are strings of code units below 256; a repeated header arrives as
  an array. The fields of the JSON body are strings of 16-bit code units.
\<close>

datatype header = Absent | Single string | Multiple "string list"

record SupportRequestBody =
  name :: "code_units option"
  email :: "code_units option"
  text_field :: "code_units option"
  language :: "string option"

record request =
  x_webhook_secret :: header
  authorization :: header
  body :: SupportRequestBody

text \<open>
  \<^verbatim>\<open>s.replace(p, '')\<close> with a string pattern: the first occurrence of \<open>p\<close> is
  removed.
\<close>

fun removeFirst :: "string \<Rightarrow> string \<Rightarrow> string" where
  "removeFirst [] p = []"
| "removeFirst (c # cs) p =
     (if startsWith (c # cs) p then drop (length p) (c # cs) else c # removeFirst cs p)"

definition authenticateWebhook :: "string \<Rightarrow> request \<Rightarrow> bool" where
  "authenticateWebhook WEBHOOK_SECRET req =
     (let webhookSecret = x_webhook_secret req;
          authHeader = authorization req;
          fromSecret = (case webhookSecret of Single v \<Rightarrow> Some v | _ \<Rightarrow> None);
          fromAuth = (case authHeader of Single v \<Rightarrow> Some (removeFirst v ''Bearer '') | _ \<Rightarrow> None);
          providedSecret = (if truthy fromSecret then fromSecret else fromAuth)
      in providedSecret = Some WEBHOOK_SECRET)"

text \<open>
  \<^verbatim>\<open>encodeURIComponent\<close> throws a \<^verbatim>\<open>URIError\<close> on a string with an unpaired
  surrogate and returns otherwise; \<open>uriEncodable\<close> says that it returns.
\<close>

definition isHighSurrogate :: "16 word \<Rightarrow> bool" where
  "isHighSurrogate u = (0xD800 \<le> u \<and> u \<le> 0xDBFF)"

definition isLowSurrogate :: "16 word \<Rightarrow> bool" where
  "isLowSurrogate u = (0xDC00 \<le> u \<and> u \<le> 0xDFFF)"

fun uriEncodable :: "code_units \<Rightarrow> bool" where
  "uriEncodable [] = True"
| "uriEncodable [u] = (\<not> isHighSurrogate u \<and> \<not> isLowSurrogate u)"
| "uriEncodable (u # v # rest) =
     (if isHighSurrogate u then isLowSurrogate v \<and> uriEncodable rest
      else \<not> isLowSurrogate u \<and> uriEncodable (v # rest))"

datatype reply_body = ApiResponse bool string | ErrorResponse string

record reply =
  status_code :: nat
  json :: reply_body

text \<open>
  The mail side of the handler: the service, if there is one, with the outcome of
  \<^verbatim>\<open>sendConfirmationEmail\<close>, and the fallback service, if there is one.
\<close>

record mail_env =
  gmailService :: "resend_outcome option"
  fallbackService :: "EmailFallbackService option"
  received_at :: int

text \<open>
  The confirmation step of the handler. A failed or throwing send is handed to
  \<^verbatim>\<open>handleFailedEmail\<close> when a fallback service exists.
\<close>

definition confirm_by_email ::
  "code_units \<Rightarrow> code_units \<Rightarrow> code_units \<Rightarrow> mail_env \<Rightarrow> EmailFallbackService option" where
  "confirm_by_email email_v name_v text_v env =
     (case gmailService env of
        None \<Rightarrow> fallbackService env
      | Some (Resolved emailResult) \<Rightarrow>
          (case fallbackService env of
             None \<Rightarrow> None
           | Some q \<Rightarrow>
               if \<not> success emailResult
               then Some (handleFailedEmail emailResult email_v name_v
                            text_v Confirmation (received_at env) q)
               else Some q)
      | Some (Rejected emailError) \<Rightarrow>
          (case fallbackService env of
             None \<Rightarrow> None
           | Some q \<Rightarrow>
               Some (handleFailedEmail
                       \<lparr>success = False, messageId = None, threadId = None,
                        error = message emailError, errorCode = JUndefined,
                        timestamp = received_at env, requiresReAuth = None\<rparr>
                       email_v name_v text_v Confirmation
                       (received_at env) q)))"

text \<open>
  The handler of \<^verbatim>\<open>POST /webhook/support\<close>: the reply and the fallback service
  afterwards. The chat notification sits in a \<^verbatim>\<open>try\<close> whose \<^verbatim>\<open>catch\<close> only
  logs, so it has no part in either, and the language only selects the wording of
  the mail. The reply-link for the chat message is built from the address by
  \<^verbatim>\<open>encodeURIComponent(email)\<close> before that \<^verbatim>\<open>try\<close>; a \<^verbatim>\<open>URIError\<close> there
  reaches the outer \<^verbatim>\<open>catch\<close>, which answers 500 for an error without a
  \<^verbatim>\<open>response\<close>.
\<close>

definition webhook_support ::
  "string \<Rightarrow> request \<Rightarrow> mail_env \<Rightarrow> reply \<times> EmailFallbackService option" where
  "webhook_support WEBHOOK_SECRET req env =
     (if \<not> authenticateWebhook WEBHOOK_SECRET req
      then (\<lparr>status_code = 401, json = ErrorResponse ''Unauthorized: Invalid webhook secret''\<rparr>,
            fallbackService env)
      else if \<not> truthy (name (body req)) \<or> \<not> truthy (email (body req))
              \<or> \<not> truthy (text_field (body req))
      then (\<lparr>status_code = 400, json = ErrorResponse ''Missing required fields: name, email, text''\<rparr>,
            fallbackService env)
      else
        (let name_v = the (name (body req));
             email_v = the (email (body req));
             text_v = the (text_field (body req))
         in if \<not> uriEncodable email_v
            then (\<lparr>status_code = 500,
                   json = ErrorResponse ''Failed to send support request. Please try again later.''\<rparr>,
                  fallbackService env)
            else (\<lparr>status_code = 200, json = ApiResponse True ''Support request sent successfully''\<rparr>,
                  confirm_by_email email_v name_v text_v env)))"

section \<open>Example inputs\<close>

text \<open>
  Concrete services, provider answers, queue entries and requests at which the
  theorems below are instantiated.
\<close>

definition fresh_service :: GmailService where
  "fresh_service =
     \<lparr>isTokenValid = True, lastTokenCheck = 1000, notificationSent = False,
      reAuthCallback = True, effects = []\<rparr>"

definition invalid_grant :: js_error where
  "invalid_grant =
     \<lparr>code = JString ''invalid_grant'', status = JNumber 400, message = Some ''invalid_grant''\<rparr>"

definition unauthorized :: js_error where
  "unauthorized =
     \<lparr>code = JNumber 401, status = JUndefined, message = Some ''Invalid Credentials''\<rparr>"

definition unavailable :: js_error where
  "unavailable =
     \<lparr>code = JNumber 503, status = JNumber 503, message = Some ''Service Unavailable''\<rparr>"

definition timed_out :: js_error where
  "timed_out =
     \<lparr>code = JString ''ETIMEDOUT'', status = JUndefined, message = Some ''connect ETIMEDOUT''\<rparr>"

definition bare_404 :: js_error where
  "bare_404 = \<lparr>code = JNumber 404, status = JUndefined, message = None\<rparr>"

definition bare_401 :: js_error where
  "bare_401 = \<lparr>code = JNumber 401, status = JUndefined, message = None\<rparr>"

definition bare_503 :: js_error where
  "bare_503 = \<lparr>code = JNumber 503, status = JNumber 503, message = None\<rparr>"

definition probe_ok :: "int \<Rightarrow> probe" where
  "probe_ok t = \<lparr>accessToken = Inr (Some ''ya29''), profile = Inr (), checkedAt = t\<rparr>"

definition probe_revoked :: "int \<Rightarrow> probe" where
  "probe_revoked t = \<lparr>accessToken = Inl invalid_grant, profile = Inr (), checkedAt = t\<rparr>"

definition sent_ok :: GmailEmailResponse where
  "sent_ok =
     \<lparr>success = True, messageId = Some ''18c2'', threadId = Some ''18c2'', error = None,
      errorCode = JUndefined, timestamp = 0, requiresReAuth = None\<rparr>"

definition sent_failed :: GmailEmailResponse where
  "sent_failed =
     \<lparr>success = False, messageId = None, threadId = None, error = Some ''Service Unavailable'',
      errorCode = JNumber 503, timestamp = 0, requiresReAuth = None\<rparr>"

definition entry_a :: FailedEmail where
  "entry_a =
     \<lparr>fe_ref = 0, fe_email = literal ''a@x.com'', fe_name = literal ''A'',
      fe_message = literal ''help'', fe_timestamp = 5, fe_type = Confirmation\<rparr>"

definition entry_b :: FailedEmail where
  "entry_b =
     \<lparr>fe_ref = 1, fe_email = literal ''b@x.com'', fe_name = literal ''B'',
      fe_message = literal ''thanks'', fe_timestamp = 6, fe_type = Response\<rparr>"

definition granted :: Credentials where
  "granted = \<lparr>refresh_token = Some ''1//0g'', access_token = Some ''ya29''\<rparr>"

definition someone :: UserInfo where
  "someone =
     \<lparr>ui_email = Some ''someone@gmail.com'', ui_verified = Some True, ui_name = Some ''Someone''\<rparr>"

definition support :: UserInfo where
  "support =
     \<lparr>ui_email = Some ''supprtblockroyale@gmail.com'', ui_verified = Some True,
      ui_name = Some ''Support''\<rparr>"

definition authorized_by :: "UserInfo \<Rightarrow> oauth_env" where
  "authorized_by u =
     \<lparr>getToken = Inr granted, userinfo_get = Inr u, gmailAccess = True, writeFile = None,
      clock = 1700\<rparr>"

definition old_record :: TokenData where
  "old_record =
     \<lparr>td_refreshToken = ''1//old'', td_updatedAt = 5, td_updatedBy = Some ''System''\<rparr>"

definition new_record :: TokenData where
  "new_record =
     \<lparr>td_refreshToken = ''1//0g'', td_updatedAt = 1700,
      td_updatedBy = Some ''OAuth2 callback - supprtblockroyale@gmail.com''\<rparr>"

definition surrogate_request :: request where
  "surrogate_request =
     \<lparr>x_webhook_secret = Single ''s3cret'', authorization = Absent,
      body = \<lparr>name = Some (literal ''A''), email = Some [0xD800],
              text_field = Some (literal ''help''), language = None\<rparr>\<rparr>"

definition no_mail :: mail_env where
  "no_mail = \<lparr>gmailService = None, fallbackService = None, received_at = 0\<rparr>"

lemmas example_defs =
  fresh_service_def invalid_grant_def unauthorized_def unavailable_def timed_out_def
  bare_404_def bare_401_def bare_503_def probe_ok_def probe_revoked_def sent_ok_def sent_failed_def entry_a_def
  entry_b_def granted_def someone_def support_def authorized_by_def old_record_def
  new_record_def surrogate_request_def no_mail_def

section \<open>Properties of the token guard\<close>

subsection \<open>State and effects\<close>

lemma effects_emit [simp]: "effects (emit es s) = effects s @ es"
  and isTokenValid_emit [simp]: "isTokenValid (emit es s) = isTokenValid s"
  and lastTokenCheck_emit [simp]: "lastTokenCheck (emit es s) = lastTokenCheck s"
  and notificationSent_emit [simp]: "notificationSent (emit es s) = notificationSent s"
  and reAuthCallback_emit [simp]: "reAuthCallback (emit es s) = reAuthCallback s"
  by (simp_all add: emit_def)

lemma handleAuthError_fields [simp]:
  "isTokenValid (handleAuthError s) = isTokenValid s"
  "lastTokenCheck (handleAuthError s) = lastTokenCheck s"
  "notificationSent (handleAuthError s) = True"
  "reAuthCallback (handleAuthError s) = reAuthCallback s"
  by (simp_all add: handleAuthError_def Let_def)

lemma effects_handleAuthError:
  "effects (handleAuthError s) =
     effects s @ AuthErrorLogged #
       (if notificationSent s then []
        else Escalation # (if reAuthCallback s then [ReAuthCallback] else []))"
  by (simp add: handleAuthError_def Let_def)

lemma attempts_unchanged [simp]:
  "attempts (emit [LiveProbe] s) = attempts s"
  "attempts (handleAuthError s) = attempts s"
  "attempts (s\<lparr>isTokenValid := b\<rparr>) = attempts s"
  "attempts (s\<lparr>lastTokenCheck := t\<rparr>) = attempts s"
  by (simp_all add: attempts_def effects_handleAuthError isProviderCall_def)

lemma probes_simps [simp]:
  "probes (emit es s) = probes s + count_list es LiveProbe"
  "probes (handleAuthError s) = probes s"
  "probes (s\<lparr>isTokenValid := b\<rparr>) = probes s"
  "probes (s\<lparr>lastTokenCheck := t\<rparr>) = probes s"
  by (simp_all add: probes_def effects_handleAuthError)

subsection \<open>The token check\<close>

lemma validateToken_catch_snd [simp]:
  "attempts (snd (validateToken_catch e s)) = attempts s"
  "lastTokenCheck (snd (validateToken_catch e s)) = lastTokenCheck s"
  "probes (snd (validateToken_catch e s)) = probes s"
  by (simp_all add: validateToken_catch_def split: sum.splits)

lemma validateToken_catch_not_True:
  "validateToken_catch e s \<noteq> (Inr True, s1)"
  by (simp add: validateToken_catch_def split: sum.splits)

lemma validateToken_catch_eq:
  "validateToken_catch e s = (r, s') \<Longrightarrow>
     lastTokenCheck s' = lastTokenCheck s \<and> probes s' = probes s"
  using validateToken_catch_snd [of e s] by simp

lemma validateToken_attempts:
  "attempts (snd (validateToken now pr s)) = attempts s"
  by (simp add: validateToken_def Let_def split: sum.splits)

lemma validateToken_True:
  assumes "validateToken now pr s = (Inr True, s1)"
  shows "(isTokenValid s \<and> now - lastTokenCheck s < 5 * 60 * 1000 \<and> s1 = s)
       \<or> (\<not> (isTokenValid s \<and> now - lastTokenCheck s < 5 * 60 * 1000)
          \<and> s1 = (emit [LiveProbe] s)\<lparr>isTokenValid := True, lastTokenCheck := checkedAt pr\<rparr>)"
  using assms
  by (auto simp: validateToken_def Let_def validateToken_catch_not_True
           split: if_splits sum.splits)

lemma validateToken_lastTokenCheck_changed:
  assumes "validateToken now pr s = (r, s')" and "lastTokenCheck s' \<noteq> lastTokenCheck s"
  shows "probes s' = probes s + 1"
  using assms
  by (auto simp: validateToken_def Let_def split: if_splits sum.splits
           dest!: validateToken_catch_eq)

text \<open>
  C3. When the cached flag is true and the last check is less than five minutes
  old, \<^verbatim>\<open>validateToken\<close> returns true and leaves the service as it was: no probe
  is made and \<open>lastTokenCheck\<close> keeps its value, whatever the provider would have
  answered. Hence a call that has to probe and succeeds, followed by a call within
  five minutes of that check, makes exactly one probe in all. And whenever a call
  changes \<open>lastTokenCheck\<close>, that call made a probe.
\<close>

theorem validateToken_cache_short_circuit:
  "(isTokenValid s \<and> now - lastTokenCheck s < 5 * 60 * 1000 \<longrightarrow>
      validateToken now pr s = (Inr True, s))
   \<and> (\<not> (isTokenValid t \<and> now1 - lastTokenCheck t < 5 * 60 * 1000)
        \<and> validateToken now1 pr1 t = (Inr True, t1)
        \<and> now2 - lastTokenCheck t1 < 5 * 60 * 1000 \<longrightarrow>
      validateToken now2 pr2 t1 = (Inr True, t1) \<and> probes t1 = probes t + 1)
   \<and> (validateToken now3 pr3 u = (r, u') \<and> lastTokenCheck u' \<noteq> lastTokenCheck u \<longrightarrow>
      probes u' = probes u + 1)"
proof (intro conjI impI)
  assume "isTokenValid s \<and> now - lastTokenCheck s < 5 * 60 * 1000"
  then show "validateToken now pr s = (Inr True, s)"
    by (simp add: validateToken_def)
next
  assume h: "\<not> (isTokenValid t \<and> now1 - lastTokenCheck t < 5 * 60 * 1000)
        \<and> validateToken now1 pr1 t = (Inr True, t1)
        \<and> now2 - lastTokenCheck t1 < 5 * 60 * 1000"
  then have t1: "t1 = (emit [LiveProbe] t)\<lparr>isTokenValid := True, lastTokenCheck := checkedAt pr1\<rparr>"
    using validateToken_True [of now1 pr1 t t1] by blast
  from t1 h show "validateToken now2 pr2 t1 = (Inr True, t1)"
    by (simp add: validateToken_def)
  from t1 show "probes t1 = probes t + 1"
    by simp
next
  assume "validateToken now3 pr3 u = (r, u') \<and> lastTokenCheck u' \<noteq> lastTokenCheck u"
  then show "probes u' = probes u + 1"
    using validateToken_lastTokenCheck_changed by blast
qed

theorem validateToken_cache_short_circuit_witness:
  "(isTokenValid fresh_service \<and> (200000::int) - lastTokenCheck fresh_service < 5 * 60 * 1000)
   \<and> validateToken 200000 (probe_revoked 200500) fresh_service = (Inr True, fresh_service)
   \<and> validateToken 400000 (probe_ok 400200) fresh_service
       = (Inr True, fresh_service\<lparr>lastTokenCheck := 400200, effects := [LiveProbe]\<rparr>)
   \<and> validateToken 500000 (probe_revoked 500100)
         (fresh_service\<lparr>lastTokenCheck := 400200, effects := [LiveProbe]\<rparr>)
       = (Inr True, fresh_service\<lparr>lastTokenCheck := 400200, effects := [LiveProbe]\<rparr>)
   \<and> probes (fresh_service\<lparr>lastTokenCheck := 400200, effects := [LiveProbe]\<rparr>)
       = probes fresh_service + 1"
  using validateToken_cache_short_circuit
    [where s = fresh_service and now = 200000 and pr = "probe_revoked 200500"
       and t = fresh_service and ?now1.0 = 400000 and ?pr1.0 = "probe_ok 400200"
       and ?t1.0 = "fresh_service\<lparr>lastTokenCheck := 400200, effects := [LiveProbe]\<rparr>"
       and ?now2.0 = 500000 and ?pr2.0 = "probe_revoked 500100"
       and ?now3.0 = 400000 and ?pr3.0 = "probe_ok 400200" and u = fresh_service
       and r = "Inr True"
       and u' = "fresh_service\<lparr>lastTokenCheck := 400200, effects := [LiveProbe]\<rparr>"]
  by (simp add: example_defs validateToken_def emit_def probes_def)

text \<open>
  C7. When the token check returns false, \<^verbatim>\<open>sendEmail\<close> returns at once the
  failure \<^verbatim>\<open>AUTH_REQUIRED\<close> with \<open>requiresReAuth\<close> set, whatever the provider
  would have answered, and no attempt of the retry loop has run.
\<close>

theorem sendEmail_invalid_token_no_attempt:
  assumes "validateToken now pr s = (Inr False, s1)"
  shows "sendEmail now pr provider ts maxRetries s =
           (Inr \<lparr>success = False, messageId = None, threadId = None,
                 error = Some ''Gmail authentication failed - re-authorization required'',
                 errorCode = JString ''AUTH_REQUIRED'', timestamp = ts,
                 requiresReAuth = Some True\<rparr>, s1)
         \<and> attempts s1 = attempts s"
proof -
  have "attempts s1 = attempts s"
    using validateToken_attempts [of now pr s] assms by simp
  then show ?thesis
    using assms by (simp add: sendEmail_def)
qed

theorem sendEmail_invalid_token_no_attempt_witness:
  "validateToken 400000 (probe_revoked 400200) fresh_service
     = (Inr False,
        fresh_service\<lparr>isTokenValid := False, notificationSent := True,
          effects := [LiveProbe, AuthErrorLogged, Escalation, ReAuthCallback]\<rparr>)
   \<and> sendEmail 400000 (probe_revoked 400200) (\<lambda>n. Delivered (Some ''18c2'') (Some ''18c2''))
        400300 3 fresh_service
     = (Inr \<lparr>success = False, messageId = None, threadId = None,
           error = Some ''Gmail authentication failed - re-authorization required'',
           errorCode = JString ''AUTH_REQUIRED'', timestamp = 400300,
           requiresReAuth = Some True\<rparr>,
        fresh_service\<lparr>isTokenValid := False, notificationSent := True,
          effects := [LiveProbe, AuthErrorLogged, Escalation, ReAuthCallback]\<rparr>)
   \<and> attempts (fresh_service\<lparr>isTokenValid := False, notificationSent := True,
          effects := [LiveProbe, AuthErrorLogged, Escalation, ReAuthCallback]\<rparr>)
     = attempts fresh_service"
proof -
  have h: "validateToken 400000 (probe_revoked 400200) fresh_service
     = (Inr False,
        fresh_service\<lparr>isTokenValid := False, notificationSent := True,
          effects := [LiveProbe, AuthErrorLogged, Escalation, ReAuthCallback]\<rparr>)"
    by (simp add: example_defs validateToken_def validateToken_catch_def
          isAuthenticationError_def authErrors_def handleAuthError_def emit_def)
  show ?thesis
    using h
      sendEmail_invalid_token_no_attempt
        [OF h, where provider = "\<lambda>n. Delivered (Some ''18c2'') (Some ''18c2'')"
           and ts = 400300 and maxRetries = 3]
    by simp
qed

section \<open>Properties of the delivery engine\<close>

subsection \<open>The retry loop\<close>

lemma emit_nil [simp]: "emit [] s = s"
  by (simp add: emit_def)

lemma emit_emit [simp]: "emit es (emit ds s) = emit (ds @ es) s"
  by (simp add: emit_def)

lemma retried_same [simp]: "retried a a = []"
  by (simp add: retried_def)

lemma retried_Suc:
  "a \<le> b \<Longrightarrow> retried a (Suc b) = retried a b @ [ProviderCall b, BackoffWait (2 ^ (b - 1) * 1000)]"
  by (simp add: retried_def)

lemma sendEmail_loop_transient_step:
  assumes "provider a = Threw e" and "handledAsTransient e" and "a < maxRetries"
  shows "sendEmail_loop provider ts maxRetries a s =
           sendEmail_loop provider ts maxRetries (Suc a)
             (emit [ProviderCall a, BackoffWait (2 ^ (a - 1) * 1000)] s)"
  using assms
  by (subst sendEmail_loop.simps) (simp add: handledAsTransient_def Let_def)

lemma sendEmail_loop_retried:
  assumes "a \<le> k" and "k \<le> maxRetries"
    and "\<forall>j. a \<le> j \<and> j < k \<longrightarrow> (\<exists>e. provider j = Threw e \<and> handledAsTransient e)"
  shows "sendEmail_loop provider ts maxRetries a s =
           sendEmail_loop provider ts maxRetries k (emit (retried a k) s)"
  using assms
proof (induction k rule: dec_induct)
  case base
  show ?case by simp
next
  case (step n)
  then obtain e where e: "provider n = Threw e" "handledAsTransient e"
    by auto
  have "sendEmail_loop provider ts maxRetries a s =
          sendEmail_loop provider ts maxRetries n (emit (retried a n) s)"
    using step by simp
  also have "\<dots> = sendEmail_loop provider ts maxRetries (Suc n)
                     (emit [ProviderCall n, BackoffWait (2 ^ (n - 1) * 1000)] (emit (retried a n) s))"
    using e step.prems by (intro sendEmail_loop_transient_step) auto
  finally show ?case
    using step.hyps by (simp add: retried_Suc)
qed

lemma sendEmail_loop_auth:
  assumes "provider k = Threw e" and "handledAsAuth e" and "k \<le> maxRetries"
  shows "sendEmail_loop provider ts maxRetries k s =
           (Inr \<lparr>success = False, messageId = None, threadId = None,
                 error = Some ''Authentication failed - re-authorization required'',
                 errorCode = code e, timestamp = ts, requiresReAuth = Some True\<rparr>,
            handleAuthError ((emit [ProviderCall k] s)\<lparr>isTokenValid := False\<rparr>))"
  using assms
  by (subst sendEmail_loop.simps) (auto simp: handledAsAuth_def Let_def split: sum.splits)

lemma sendEmail_loop_last_transient:
  assumes "provider k = Threw e" and "handledAsTransient e" and "k = maxRetries"
  shows "sendEmail_loop provider ts maxRetries k s =
           (Inr \<lparr>success = False, messageId = None, threadId = None,
                 error = message e, errorCode = code e, timestamp = ts,
                 requiresReAuth = None\<rparr>,
            emit [ProviderCall k] s)"
  using assms
  by (subst sendEmail_loop.simps) (auto simp: handledAsTransient_def Let_def)

lemma attempts_retried: "a \<le> b \<Longrightarrow> length (filter isProviderCall (retried a b)) = b - a"
  by (induction b rule: dec_induct) (simp_all add: retried_Suc isProviderCall_def)


text \<open>
  In a send whose token check passes, let the attempts before attempt \<open>k\<close> be
  handled as transient and attempt \<open>k\<close> be handled as auth-class, whether or not
  its error is also retryable. Then attempt \<open>k\<close> is the last: nothing follows it
  but the escalation of \<^verbatim>\<open>handleAuthError\<close>, in particular no backoff wait and no
  further provider call; the token is marked invalid; and the outcome is a failure
  with \<open>requiresReAuth\<close> set.
\<close>

lemma sendEmail_handled_auth_error_ends_send:
  assumes "validateToken now pr s = (Inr True, s1)"
    and "1 \<le> k" and "k \<le> maxRetries"
    and "\<forall>j. 1 \<le> j \<and> j < k \<longrightarrow> (\<exists>e'. provider j = Threw e' \<and> handledAsTransient e')"
    and "provider k = Threw e" and "handledAsAuth e"
  shows "fst (sendEmail now pr provider ts maxRetries s) =
           Inr \<lparr>success = False, messageId = None, threadId = None,
                error = Some ''Authentication failed - re-authorization required'',
                errorCode = code e, timestamp = ts, requiresReAuth = Some True\<rparr>
       \<and> effects (snd (sendEmail now pr provider ts maxRetries s)) =
           effects s1 @ retried 1 k @ [ProviderCall k, AuthErrorLogged] @
             (if notificationSent s1 then []
              else Escalation # (if reAuthCallback s1 then [ReAuthCallback] else []))
       \<and> \<not> isTokenValid (snd (sendEmail now pr provider ts maxRetries s))
       \<and> notificationSent (snd (sendEmail now pr provider ts maxRetries s))
       \<and> attempts (snd (sendEmail now pr provider ts maxRetries s)) = attempts s1 + k"
proof -
  let ?resp = "\<lparr>success = False, messageId = None, threadId = None,
                error = Some ''Authentication failed - re-authorization required'',
                errorCode = code e, timestamp = ts, requiresReAuth = Some True\<rparr>"
  let ?s2 = "handleAuthError ((emit [ProviderCall k] (emit (retried 1 k) s1))\<lparr>isTokenValid := False\<rparr>)"
  have "sendEmail now pr provider ts maxRetries s = sendEmail_loop provider ts maxRetries 1 s1"
    using assms(1) by (simp add: sendEmail_def)
  also have "\<dots> = sendEmail_loop provider ts maxRetries k (emit (retried 1 k) s1)"
    using assms(2-4) by (rule sendEmail_loop_retried)
  also have "\<dots> = (Inr ?resp, ?s2)"
    using assms(5,6,3) by (rule sendEmail_loop_auth)
  finally have run: "sendEmail now pr provider ts maxRetries s = (Inr ?resp, ?s2)" .
  have eff: "effects ?s2 = effects s1 @ retried 1 k @ [ProviderCall k, AuthErrorLogged] @
             (if notificationSent s1 then []
              else Escalation # (if reAuthCallback s1 then [ReAuthCallback] else []))"
    by (simp add: effects_handleAuthError)
  have "attempts ?s2 = attempts s1 + k"
    unfolding attempts_def eff
    using assms(2) by (simp add: attempts_retried isProviderCall_def)
  with run eff show ?thesis
    by simp
qed

lemma sendEmail_handled_auth_error_example:
  "validateToken 2000 (probe_ok 2100) fresh_service = (Inr True, fresh_service)
   \<and> handledAsAuth unauthorized
   \<and> fst (sendEmail 2000 (probe_ok 2100) (\<lambda>n. Threw unauthorized) 2500 3 fresh_service)
       = Inr \<lparr>success = False, messageId = None, threadId = None,
              error = Some ''Authentication failed - re-authorization required'',
              errorCode = JNumber 401, timestamp = 2500, requiresReAuth = Some True\<rparr>
   \<and> effects (snd (sendEmail 2000 (probe_ok 2100) (\<lambda>n. Threw unauthorized) 2500 3 fresh_service))
       = [ProviderCall 1, AuthErrorLogged, Escalation, ReAuthCallback]
   \<and> attempts (snd (sendEmail 2000 (probe_ok 2100) (\<lambda>n. Threw unauthorized) 2500 3 fresh_service))
       = 1"
proof -
  have v: "validateToken 2000 (probe_ok 2100) fresh_service = (Inr True, fresh_service)"
    by (simp add: example_defs validateToken_def)
  have a: "handledAsAuth unauthorized"
    by (auto simp: example_defs handledAsAuth_def isRetryableError_def isAuthenticationError_def
          retryableCodes_def authErrors_def)
  have t: "\<forall>j. 1 \<le> j \<and> j < (1::nat) \<longrightarrow>
             (\<exists>e'. (\<lambda>n. Threw unauthorized) j = Threw e' \<and> handledAsTransient e')"
    by simp
  have f: "notificationSent fresh_service = False" "reAuthCallback fresh_service = True"
    "effects fresh_service = []" "attempts fresh_service = 0"
    by (simp_all add: example_defs attempts_def)
  show ?thesis
    using v a f
      sendEmail_handled_auth_error_ends_send
        [where k = 1 and maxRetries = 3 and ts = 2500 and provider = "\<lambda>n. Threw unauthorized"
           and e = unauthorized, OF v _ _ t _ a]
    by (simp add: unauthorized_def)
qed

lemma js_exn_eq: "(x :: js_exn) = y"
  by (cases x, cases y) simp

lemma handledAsAuth_iff:
  "handledAsAuth e \<longleftrightarrow> authClass e \<and> isRetryableError e \<noteq> Inl TypeError"
  by (cases "isRetryableError e") (auto simp: handledAsAuth_def authClass_def js_exn_eq)

text \<open>
  C1. An auth-class error does not always end the send with an auth-related
  outcome. An error with code 401 and no message is auth-class, accepted by its
  code. Met on attempt 1 of 3 after a passing token check, it makes the retry
  classifier, which runs first, read the missing message: \<^verbatim>\<open>sendEmail\<close> raises
  after that one provider call, returns no outcome, and leaves the token marked
  valid and the operator not notified.
\<close>

theorem sendEmail_auth_error_without_message_raises:
  "authClass bare_401
   \<and> validateToken 2000 (probe_ok 2100) fresh_service = (Inr True, fresh_service)
   \<and> sendEmail 2000 (probe_ok 2100) (\<lambda>n. Threw bare_401) 2500 3 fresh_service
       = (Inl TypeError, fresh_service\<lparr>effects := [ProviderCall 1]\<rparr>)
   \<and> isTokenValid (fresh_service\<lparr>effects := [ProviderCall 1]\<rparr>)
   \<and> escalations (fresh_service\<lparr>effects := [ProviderCall 1]\<rparr>) = 0"
  by code_simp

text \<open>
  In a send with \<open>maxRetries = 3\<close> whose token check passes and whose three
  attempts are all handled as transient, exactly three provider calls are made,
  with a wait of 1000 ms after the first and of 2000 ms after the second and none
  after the third, and the outcome is a failure that carries the last error and
  does not ask for re-authorization. Connection resets, timeouts and the HTTP codes
  429, 500, 502 and 503 are handled as transient when the auth classifier returns
  false.
\<close>

lemma sendEmail_handled_transient_three_attempts:
  assumes "validateToken now pr s = (Inr True, s1)"
    and "provider 1 = Threw e1" and "handledAsTransient e1"
    and "provider 2 = Threw e2" and "handledAsTransient e2"
    and "provider 3 = Threw e3" and "handledAsTransient e3"
  shows "sendEmail now pr provider ts 3 s =
           (Inr \<lparr>success = False, messageId = None, threadId = None,
                 error = message e3, errorCode = code e3, timestamp = ts,
                 requiresReAuth = None\<rparr>,
            emit [ProviderCall 1, BackoffWait 1000, ProviderCall 2, BackoffWait 2000,
                  ProviderCall 3] s1)
       \<and> attempts (snd (sendEmail now pr provider ts 3 s)) = attempts s1 + 3
       \<and> ((List.member [JString ''ECONNRESET'', JString ''ETIMEDOUT'', JNumber 429,
                         JNumber 500, JNumber 502, JNumber 503] (code e)
            \<or> (\<exists>m. message e = Some m \<and> includesStr m ''timeout''))
           \<and> isAuthenticationError e = Inr False \<longrightarrow> handledAsTransient e)"
proof -
  have "sendEmail now pr provider ts 3 s = sendEmail_loop provider ts 3 1 s1"
    using assms(1) by (simp add: sendEmail_def)
  also have "\<dots> = sendEmail_loop provider ts 3 3 (emit (retried 1 3) s1)"
  proof (rule sendEmail_loop_retried)
    show "\<forall>j. 1 \<le> j \<and> j < 3 \<longrightarrow> (\<exists>e. provider j = Threw e \<and> handledAsTransient e)"
    proof (intro allI impI)
      fix j :: nat
      assume "1 \<le> j \<and> j < 3"
      then have "j = 1 \<or> j = 2" by arith
      then show "\<exists>e. provider j = Threw e \<and> handledAsTransient e"
        using assms(2-5) by auto
    qed
  qed simp_all
  also have "\<dots> = (Inr \<lparr>success = False, messageId = None, threadId = None,
                 error = message e3, errorCode = code e3, timestamp = ts,
                 requiresReAuth = None\<rparr>,
            emit [ProviderCall 3] (emit (retried 1 3) s1))"
    using assms(6,7) by (intro sendEmail_loop_last_transient) simp_all
  also have "retried 1 3 = [ProviderCall 1, BackoffWait 1000, ProviderCall 2, BackoffWait 2000]"
    by code_simp
  finally have run: "sendEmail now pr provider ts 3 s =
           (Inr \<lparr>success = False, messageId = None, threadId = None,
                 error = message e3, errorCode = code e3, timestamp = ts,
                 requiresReAuth = None\<rparr>,
            emit [ProviderCall 1, BackoffWait 1000, ProviderCall 2, BackoffWait 2000,
                  ProviderCall 3] s1)"
    by simp
  have cls: "(List.member [JString ''ECONNRESET'', JString ''ETIMEDOUT'', JNumber 429,
                         JNumber 500, JNumber 502, JNumber 503] (code e)
            \<or> (\<exists>m. message e = Some m \<and> includesStr m ''timeout''))
           \<and> isAuthenticationError e = Inr False \<longrightarrow> handledAsTransient e"
    by (auto simp: handledAsTransient_def isRetryableError_def retryableCodes_def)
  from run cls show ?thesis
    by (simp add: attempts_def isProviderCall_def)
qed

lemma sendEmail_handled_transient_example:
  "validateToken 2000 (probe_ok 2100) fresh_service = (Inr True, fresh_service)
   \<and> handledAsTransient unavailable
   \<and> sendEmail 2000 (probe_ok 2100) (\<lambda>n. Threw unavailable) 9500 3 fresh_service
       = (Inr \<lparr>success = False, messageId = None, threadId = None,
               error = Some ''Service Unavailable'', errorCode = JNumber 503,
               timestamp = 9500, requiresReAuth = None\<rparr>,
          fresh_service\<lparr>effects := [ProviderCall 1, BackoffWait 1000, ProviderCall 2,
                                    BackoffWait 2000, ProviderCall 3]\<rparr>)
   \<and> List.member [JString ''ECONNRESET'', JString ''ETIMEDOUT'', JNumber 429, JNumber 500,
                   JNumber 502, JNumber 503] (code timed_out)
   \<and> isAuthenticationError timed_out = Inr False
   \<and> handledAsTransient timed_out"
proof -
  have v: "validateToken 2000 (probe_ok 2100) fresh_service = (Inr True, fresh_service)"
    by (simp add: example_defs validateToken_def)
  have c: "handledAsTransient unavailable"
    by (simp add: example_defs handledAsTransient_def isRetryableError_def
          isAuthenticationError_def retryableCodes_def authErrors_def authMessages_def
          toLowerCase_def lowerChar_def)
  have n: "isAuthenticationError timed_out = Inr False"
    by (simp add: example_defs isAuthenticationError_def authErrors_def authMessages_def
          toLowerCase_def lowerChar_def)
  have m: "List.member [JString ''ECONNRESET'', JString ''ETIMEDOUT'', JNumber 429, JNumber 500,
                        JNumber 502, JNumber 503] (code timed_out)"
    by (simp add: example_defs)
  show ?thesis
    using v c n m
      sendEmail_handled_transient_three_attempts
        [where provider = "\<lambda>n. Threw unavailable" and ts = 9500 and ?e1.0 = unavailable
           and ?e2.0 = unavailable and ?e3.0 = unavailable and e = timed_out,
         OF v _ c _ c _ c]
    by (simp add: emit_def fresh_service_def unavailable_def)
qed

lemma handledAsTransient_iff:
  "handledAsTransient e \<longleftrightarrow> transientClass e \<and> isAuthenticationError e \<noteq> Inl TypeError"
  by (cases "isAuthenticationError e") (auto simp: handledAsTransient_def transientClass_def js_exn_eq)

text \<open>
  C4. A provider that fails every attempt with a transient error does not always
  get three attempts. An HTTP 503 without a message is transient, retryable by
  its code and not accepted as auth-class. Met on attempt 1 of 3 after a passing
  token check, it makes the auth classifier read the missing message:
  \<^verbatim>\<open>sendEmail\<close> raises after that one provider call, with no backoff wait, no
  second attempt and no outcome.
\<close>

theorem sendEmail_transient_error_without_message_raises:
  "transientClass bare_503
   \<and> validateToken 2000 (probe_ok 2100) fresh_service = (Inr True, fresh_service)
   \<and> sendEmail 2000 (probe_ok 2100) (\<lambda>n. Threw bare_503) 2500 3 fresh_service
       = (Inl TypeError, fresh_service\<lparr>effects := [ProviderCall 1]\<rparr>)
   \<and> attempts (fresh_service\<lparr>effects := [ProviderCall 1]\<rparr>) = 1"
  by code_simp

subsection \<open>Notification episodes\<close>

lemma counts_emit [simp]:
  "escalations (emit es s) = escalations s + count_list es Escalation"
  "authLogs (emit es s) = authLogs s + count_list es AuthErrorLogged"
  by (simp_all add: escalations_def authLogs_def)

lemma counts_update [simp]:
  "escalations (s\<lparr>isTokenValid := b\<rparr>) = escalations s"
  "escalations (s\<lparr>notificationSent := b\<rparr>) = escalations s"
  "escalations (s\<lparr>lastTokenCheck := t\<rparr>) = escalations s"
  "authLogs (s\<lparr>isTokenValid := b\<rparr>) = authLogs s"
  "authLogs (s\<lparr>notificationSent := b\<rparr>) = authLogs s"
  "authLogs (s\<lparr>lastTokenCheck := t\<rparr>) = authLogs s"
  by (simp_all add: escalations_def authLogs_def)

lemma escalations_handleAuthError [simp]:
  "escalations (handleAuthError s) = escalations s + (if notificationSent s then 0 else 1)"
  unfolding escalations_def effects_handleAuthError by simp

lemma authLogs_handleAuthError [simp]: "authLogs (handleAuthError s) = authLogs s + 1"
  unfolding authLogs_def effects_handleAuthError by simp




























subsection \<open>The status report\<close>

text \<open>
  C10. In every status object returned by \<^verbatim>\<open>getTokenStatus()\<close>, \<open>needsReAuth\<close> is
  exactly the negation of \<open>valid\<close>: a status is never both valid and in need of
  re-authorization, and never neither.
\<close>

theorem getTokenStatus_needsReAuth_iff_not_valid:
  "needsReAuth (getTokenStatus s) = (\<not> valid (getTokenStatus s))"
  by (simp add: getTokenStatus_def)

subsection \<open>Raising across the contract\<close>

lemma classifier_raises_only_without_message:
  "isRetryableError e = Inl x \<Longrightarrow> message e = None"
  "isAuthenticationError e = Inl x \<Longrightarrow> message e = None"
  by (auto simp: isRetryableError_def isAuthenticationError_def split: if_splits option.splits)

text \<open>
  C8. The public operations do raise. An error object without a message, whose
  code and status are in neither list, makes the classifier read a property of
  \<^verbatim>\<open>undefined\<close> inside the \<^verbatim>\<open>catch\<close> block, and the \<^verbatim>\<open>TypeError\<close> leaves
  \<^verbatim>\<open>validateToken\<close>, \<^verbatim>\<open>sendEmail\<close> and \<^verbatim>\<open>refreshToken\<close> alike.
\<close>

theorem public_operations_raise_without_message:
  "fst (validateToken 400000
          \<lparr>accessToken = Inl bare_404, profile = Inr (), checkedAt = 400200\<rparr> fresh_service)
     = Inl TypeError
   \<and> fst (sendEmail 2000 (probe_ok 2100) (\<lambda>n. Threw bare_404) 2500 3 fresh_service)
     = Inl TypeError
   \<and> fst (refreshToken (Inl bare_404) 2000 (probe_ok 2100) fresh_service) = Inl TypeError"
  by code_simp

section \<open>Properties of the fallback queue\<close>






section \<open>Properties of the re-authorization flow\<close>

lemma callback_touches_store_only_for_required:
  assumes "callback authorizationCode err env stored = (pg, stored', saves)"
    and "saves \<noteq> [] \<or> stored' \<noteq> stored"
  shows "\<exists>userInfo. validateTokens env = Inr userInfo \<and> ui_email userInfo = Some requiredEmail"
  using assms
  by (auto simp: callback_def Let_def split: if_splits sum.splits prod.splits)

text \<open>
  C6. When the callback has exchanged the code and fetched the identity, and the
  address of that identity is not the required one, the wrong-account page is
  sent, \<^verbatim>\<open>saveRefreshToken\<close> is not called and the credential file is as before.
  Conversely, any run of the callback that calls \<^verbatim>\<open>saveRefreshToken\<close> or changes
  the file has fetched an identity with the required address.
\<close>

theorem callback_wrong_account_never_saves:
  "(\<not> truthy err \<and> truthy authorizationCode \<and> getTokens env = Inr tokens
      \<and> validateTokens env = Inr userInfo \<and> ui_email userInfo \<noteq> Some requiredEmail \<longrightarrow>
    callback authorizationCode err env stored =
      (WrongAccountPage (ui_email userInfo) requiredEmail, stored, []))
   \<and> (callback authorizationCode' err' env' stored' = (pg, stored'', saves)
        \<and> (saves \<noteq> [] \<or> stored'' \<noteq> stored') \<longrightarrow>
      (\<exists>userInfo'. validateTokens env' = Inr userInfo'
                   \<and> ui_email userInfo' = Some requiredEmail))"
proof (intro conjI impI)
  assume "\<not> truthy err \<and> truthy authorizationCode \<and> getTokens env = Inr tokens
      \<and> validateTokens env = Inr userInfo \<and> ui_email userInfo \<noteq> Some requiredEmail"
  then show "callback authorizationCode err env stored =
      (WrongAccountPage (ui_email userInfo) requiredEmail, stored, [])"
    by (simp add: callback_def)
next
  assume "callback authorizationCode' err' env' stored' = (pg, stored'', saves)
        \<and> (saves \<noteq> [] \<or> stored'' \<noteq> stored')"
  then show "\<exists>userInfo'. validateTokens env' = Inr userInfo'
                   \<and> ui_email userInfo' = Some requiredEmail"
    using callback_touches_store_only_for_required by blast
qed

theorem callback_wrong_account_never_saves_witness:
  "(\<not> truthy (None :: string option) \<and> truthy (Some ''4/0AfJ'')
      \<and> getTokens (authorized_by someone) = Inr granted
      \<and> validateTokens (authorized_by someone) = Inr someone
      \<and> ui_email someone \<noteq> Some requiredEmail)
   \<and> callback (Some ''4/0AfJ'') None (authorized_by someone) (Some old_record)
       = (WrongAccountPage (Some ''someone@gmail.com'') requiredEmail, Some old_record, [])
   \<and> callback (Some ''4/0AfJ'') None (authorized_by support) (Some old_record)
       = (SuccessPage (Some ''supprtblockroyale@gmail.com''), Some new_record,
          [(''1//0g'', ''OAuth2 callback - supprtblockroyale@gmail.com'')])
   \<and> (\<exists>userInfo'. validateTokens (authorized_by support) = Inr userInfo'
          \<and> ui_email userInfo' = Some requiredEmail)"
proof -
  have c: "callback (Some ''4/0AfJ'') None (authorized_by support) (Some old_record)
       = (SuccessPage (Some ''supprtblockroyale@gmail.com''), Some new_record,
          [(''1//0g'', ''OAuth2 callback - supprtblockroyale@gmail.com'')])"
    by (simp add: example_defs callback_def getTokens_def validateTokens_def truthy_def
          requiredEmail_def saveRefreshToken_def shown_def Let_def)
  show ?thesis
    using c
      callback_wrong_account_never_saves
        [where err = None and authorizationCode = "Some ''4/0AfJ''"
           and env = "authorized_by someone" and tokens = granted and userInfo = someone
           and stored = "Some old_record"
           and authorizationCode' = "Some ''4/0AfJ''" and err' = None
           and env' = "authorized_by support" and stored' = "Some old_record"
           and pg = "SuccessPage (Some ''supprtblockroyale@gmail.com'')"
           and stored'' = "Some new_record"
           and saves = "[(''1//0g'', ''OAuth2 callback - supprtblockroyale@gmail.com'')]"]
    by (simp add: example_defs getTokens_def validateTokens_def truthy_def requiredEmail_def)
qed

section \<open>Properties of the support webhook\<close>

lemma authenticateWebhook_no_header:
  "x_webhook_secret req = Absent \<Longrightarrow> authorization req = Absent \<Longrightarrow>
     \<not> authenticateWebhook WEBHOOK_SECRET req"
  by (simp add: authenticateWebhook_def truthy_def)

lemma authenticateWebhook_wrong_secret:
  "x_webhook_secret req = Single v \<Longrightarrow> v \<noteq> [] \<Longrightarrow> v \<noteq> WEBHOOK_SECRET \<Longrightarrow>
     \<not> authenticateWebhook WEBHOOK_SECRET req"
  by (simp add: authenticateWebhook_def truthy_def)

lemma webhook_support_unauthorized:
  "\<not> authenticateWebhook WEBHOOK_SECRET req \<Longrightarrow>
     webhook_support WEBHOOK_SECRET req env =
       (\<lparr>status_code = 401, json = ErrorResponse ''Unauthorized: Invalid webhook secret''\<rparr>,
        fallbackService env)"
  by (simp add: webhook_support_def)

lemma webhook_support_missing_fields:
  "authenticateWebhook WEBHOOK_SECRET req \<Longrightarrow>
   \<not> truthy (name (body req)) \<or> \<not> truthy (email (body req)) \<or> \<not> truthy (text_field (body req)) \<Longrightarrow>
     webhook_support WEBHOOK_SECRET req env =
       (\<lparr>status_code = 400,
         json = ErrorResponse ''Missing required fields: name, email, text''\<rparr>,
        fallbackService env)"
  by (auto simp: webhook_support_def)

lemma webhook_support_accepted:
  "authenticateWebhook WEBHOOK_SECRET req \<Longrightarrow>
   truthy (name (body req)) \<Longrightarrow> email (body req) = Some e \<Longrightarrow> e \<noteq> [] \<Longrightarrow>
   truthy (text_field (body req)) \<Longrightarrow> uriEncodable e \<Longrightarrow>
     fst (webhook_support WEBHOOK_SECRET req env) =
       \<lparr>status_code = 200, json = ApiResponse True ''Support request sent successfully''\<rparr>"
  by (simp add: webhook_support_def truthy_def Let_def)

text \<open>
  C9. A request with the right secret and all three fields present is answered
  500, not 200, when the address holds an unpaired surrogate: the reply-link is
  encoded outside the inner \<^verbatim>\<open>try\<close>. The lemmas above give the three answers the
  handler is meant to give: 401 without the secret, 400 with a field missing, 200
  otherwise, whatever becomes of the confirmation mail.
\<close>

theorem webhook_support_unpaired_surrogate_500:
  "authenticateWebhook ''s3cret'' surrogate_request
   \<and> truthy (name (body surrogate_request))
   \<and> truthy (email (body surrogate_request))
   \<and> truthy (text_field (body surrogate_request))
   \<and> fst (webhook_support ''s3cret'' surrogate_request no_mail)
       = \<lparr>status_code = 500,
          json = ErrorResponse ''Failed to send support request. Please try again later.''\<rparr>"
  by (simp add: example_defs webhook_support_def authenticateWebhook_def truthy_def
        literal_def isHighSurrogate_def isLowSurrogate_def)

theorem webhook_support_unpaired_surrogate_500_witness:
  "status_code (fst (webhook_support ''s3cret'' surrogate_request no_mail)) = 500"
  using webhook_support_unpaired_surrogate_500 by simp

end
